theory Spec2Isabelle
  imports Main "HOL-Library.Sublist" "HOL-Library.AList"
begin

section \<open>Strings: the pieces of the Go standard library the host uses\<close>

text \<open>
  Go strings are byte sequences, and so is \<^typ>\<open>string\<close>. The host joins a server id and
  a local tool name with \<^verbatim>\<open>fmt.Sprintf("%s__%s", ...)\<close> and cuts a namespaced name with
  \<^verbatim>\<open>strings.Split(name, "__")\<close>.
\<close>

definition separator :: string where
  "separator = ''__''"

text \<open>\<^verbatim>\<open>strings.Index(s, substr)\<close>: the index of the first occurrence, \<open>None\<close> for -1.\<close>

fun Index :: "string \<Rightarrow> string \<Rightarrow> nat option" where
  "Index [] sub = (if sub = [] then Some 0 else None)"
| "Index (c # cs) sub =
     (if prefix sub (c # cs) then Some 0 else map_option Suc (Index cs sub))"

text \<open>
  \<^verbatim>\<open>strings.Split(s, "__")\<close>: cut at the first occurrence of the separator, then go on
  in the rest after it (so occurrences are taken from the left and do not overlap); the
  last segment is what remains.
\<close>

function Split :: "string \<Rightarrow> string list" where
  "Split s =
     (case Index s separator of
        None \<Rightarrow> [s]
      | Some m \<Rightarrow> take m s # Split (drop (m + length separator) s))"
  by pat_completeness auto
termination
proof (relation "measure length")
  show "wf (measure length)" by simp
next
  fix s :: string and m
  assume "Index s separator = Some m"
  then have "s \<noteq> []" by (cases s) (auto simp: separator_def)
  then show "(drop (m + length separator) s, s) \<in> measure length"
    by (simp add: separator_def)
qed

declare Split.simps [simp del]

section \<open>The tool catalog (mcpToolsToAnthropicTools)\<close>

text \<open>
  \<^verbatim>\<open>mcp.Tool\<close> and \<^verbatim>\<open>llm.Tool\<close> are declared outside the repository's server package;
  the conversion reads and writes the fields below. \<open>'s\<close> stands for the schema's
  \<^verbatim>\<open>Properties\<close>, a \<^verbatim>\<open>map[string]interface{}\<close> that is only copied.
\<close>

record 's ToolInputSchema =
  mcpType :: string
  mcpProperties :: 's
  mcpRequired :: "string list"

record 's mcpTool =
  mcpName :: string
  mcpDescription :: string
  mcpInputSchema :: "'s ToolInputSchema"

record 's Schema =
  schemaType :: string
  schemaProperties :: 's
  schemaRequired :: "string list"

record 's Tool =
  toolName :: string
  toolDescription :: string
  toolInputSchema :: "'s Schema"

definition namespacedName :: "string \<Rightarrow> string \<Rightarrow> string" where
  \<comment> \<open>\<^verbatim>\<open>fmt.Sprintf("%s__%s", serverName, tool.Name)\<close>\<close>
  "namespacedName serverName name = serverName @ separator @ name"

definition mcpToolsToAnthropicTools :: "string \<Rightarrow> 's mcpTool list \<Rightarrow> 's Tool list" where
  "mcpToolsToAnthropicTools serverName mcpTools =
     map (\<lambda>tool.
            \<lparr> toolName = namespacedName serverName (mcpName tool),
              toolDescription = mcpDescription tool,
              toolInputSchema =
                \<lparr> schemaType = mcpType (mcpInputSchema tool),
                  schemaProperties = mcpProperties (mcpInputSchema tool),
                  schemaRequired = mcpRequired (mcpInputSchema tool) \<rparr> \<rparr>)
         mcpTools"

section \<open>Conversation data\<close>

text \<open>
  One item of a tool's raw result (\<^verbatim>\<open>[]interface{}\<close>): the host only asks whether the
  item is a \<^verbatim>\<open>map[string]interface{}\<close>, and then looks up its key \<^verbatim>\<open>"text"\<close>.
\<close>

datatype 'v item = MapItem "(string \<times> 'v) list" | OtherItem

text \<open>
  \<^verbatim>\<open>history.ContentBlock\<close>, one struct for the three kinds of block, told apart by
  \<^verbatim>\<open>Type\<close>. \<^verbatim>\<open>Content\<close> is an \<^verbatim>\<open>interface{}\<close>: unset, a list of blocks (the error
  path) or a tool's raw result (the success path). \<^verbatim>\<open>Input\<close> is the JSON text of the
  arguments.
\<close>

datatype 'v ContentBlock =
  ContentBlock (Type: string) (Text: string) (ID: string) (ToolUseID: string)
    (Name: string) (Input: string) (Content: "'v BlockContent")
and 'v BlockContent =
  NoContent | Blocks "'v ContentBlock list" | RawContent "'v item list"

record 'v HistoryMessage =
  Role :: string
  Contents :: "'v ContentBlock list"

text \<open>
  The composite literals of the host: the fields that a literal does not name keep their
  zero value (the empty string, no content).
\<close>

definition textBlock :: "string \<Rightarrow> 'v ContentBlock" where
  "textBlock t = ContentBlock ''text'' t [] [] [] [] NoContent"

definition toolUseBlock :: "string \<Rightarrow> string \<Rightarrow> string \<Rightarrow> 'v ContentBlock" where
  "toolUseBlock i n inp = ContentBlock ''tool_use'' [] i [] n inp NoContent"

text \<open>What the model backend returns (\<^verbatim>\<open>llm.Message\<close>, \<^verbatim>\<open>llm.ToolCall\<close>), by its getters.\<close>

record 'a ToolCall =
  GetID :: string
  GetName :: string
  GetArguments :: 'a

record 'a Message =
  GetRole :: string
  GetContent :: string
  GetToolCalls :: "'a ToolCall list"
  GetUsage :: "int \<times> int"

text \<open>\<^verbatim>\<open>mcp.CallToolResult\<close>: only \<^verbatim>\<open>Content\<close> is read; \<open>None\<close> is the nil slice.\<close>

record 'v CallToolResult =
  ResultContent :: "'v item list option"

section \<open>The host's state and its collaborators\<close>

text \<open>
  The model backend (\<^verbatim>\<open>llm.Provider\<close>) by its \<^verbatim>\<open>CreateMessage\<close>: prompt, conversation
  and catalog in, a message or an error out. It talks to the outside, so it reads and
  changes the outside world \<open>'w\<close>. Errors are their messages.
\<close>

type_synonym ('a, 'v, 's, 'w) Provider =
  "string \<Rightarrow> 'v HistoryMessage list \<Rightarrow> 's Tool list \<Rightarrow> 'w \<Rightarrow> (string + 'a Message) \<times> 'w"

text \<open>
  Entries of the log at levels Warn and Error: level, message, key-value pairs. The
  Info-level entries, which only report, are left out.
\<close>

datatype level = WarnLevel | ErrorLevel

type_synonym logEntry = "level \<times> string \<times> (string \<times> string) list"

text \<open>
  The package-level variables of \<^verbatim>\<open>server/root.go\<close>, with the outside world and the log.
  \<^verbatim>\<open>modelMcpClients\<close> is a Go map, read with \<^const>\<open>map_of\<close>.
\<close>

record ('a, 'v, 'c, 's, 'w) state =
  configFile :: string
  messageWindow :: int
  modelFlag :: string
  anthropicAPIKey :: string
  anthropicBaseURL :: string
  openaiBaseURL :: string
  openaiAPIKey :: string
  modelProvider :: "('a, 'v, 's, 'w) Provider option"
  modelMcpClients :: "(string \<times> 'c) list"
  modelTools :: "'s Tool list"
  modelMessages :: "'v HistoryMessage list"
  world :: 'w
  logs :: "logEntry list"

text \<open>
  Library calls of the tool loop: \<^verbatim>\<open>json.Marshal\<close> (its error is discarded by the host, so
  only the bytes count: the empty string when it fails), \<^verbatim>\<open>json.Unmarshal\<close> into a fresh
  argument map, \<^verbatim>\<open>CallTool\<close> of a client with the request's tool name and arguments,
  \<^verbatim>\<open>fmt.Sprintf("%v", x)\<close> and \<^verbatim>\<open>strings.TrimSpace\<close>.
\<close>

record ('a, 'v, 'c, 'w) lib =
  Marshal :: "'a \<Rightarrow> string"
  Unmarshal :: "string \<Rightarrow> string + 'a"
  CallTool :: "'c \<Rightarrow> string \<Rightarrow> 'a \<Rightarrow> 'w \<Rightarrow> (string + 'v CallToolResult) \<times> 'w"
  Sprint :: "'v \<Rightarrow> string"
  TrimSpace :: "string \<Rightarrow> string"

section \<open>runPrompt\<close>

text \<open>The text of a raw result: the \<^verbatim>\<open>"text"\<close> of every map item, each followed by a space.\<close>

definition resultText :: "('a, 'v, 'c, 'w) lib \<Rightarrow> 'v item list \<Rightarrow> string" where
  "resultText L items =
     foldl (\<lambda>acc item.
              case item of
                MapItem contentMap \<Rightarrow>
                  (case map_of contentMap ''text'' of
                     Some text \<Rightarrow> acc @ Sprint L text @ '' ''
                   | None \<Rightarrow> acc)
              | OtherItem \<Rightarrow> acc)
           [] items"

definition logWarn ::
  "string \<Rightarrow> (string \<times> string) list \<Rightarrow> ('a, 'v, 'c, 's, 'w) state \<Rightarrow> ('a, 'v, 'c, 's, 'w) state"
where
  "logWarn msg kvs st = st\<lparr>logs := logs st @ [(WarnLevel, msg, kvs)]\<rparr>"

definition logError ::
  "string \<Rightarrow> (string \<times> string) list \<Rightarrow> ('a, 'v, 'c, 's, 'w) state \<Rightarrow> ('a, 'v, 'c, 's, 'w) state"
where
  "logError msg kvs st = st\<lparr>logs := logs st @ [(ErrorLevel, msg, kvs)]\<rparr>"

text \<open>
  The body of the loop over the tool calls, on the two local slices
  \<^verbatim>\<open>messageContent\<close> and \<^verbatim>\<open>toolResults\<close> and the state. Each \<^verbatim>\<open>continue\<close> is a branch
  that returns.
\<close>

fun toolCallStep ::
  "('a, 'v, 'c, 'w) lib \<Rightarrow> 'a ToolCall \<Rightarrow>
   'v ContentBlock list \<times> 'v ContentBlock list \<times> ('a, 'v, 'c, 's, 'w) state \<Rightarrow>
   'v ContentBlock list \<times> 'v ContentBlock list \<times> ('a, 'v, 'c, 's, 'w) state"
where
  "toolCallStep L toolCall (messageContent0, toolResults, st) =
     (let input = Marshal L (GetArguments toolCall);
          messageContent =
            messageContent0 @ [toolUseBlock (GetID toolCall) (GetName toolCall) input];
          parts = Split (GetName toolCall)
      in if length parts \<noteq> 2 then
           (messageContent, toolResults,
            logWarn ''Invalid tool name format'' [(''name'', GetName toolCall)] st)
         else
           let serverName = parts ! 0; toolName = parts ! 1 in
           case map_of (modelMcpClients st) serverName of
             None \<Rightarrow>
               (messageContent, toolResults,
                logWarn ''Server not found'' [(''server'', serverName)] st)
           | Some mcpClient \<Rightarrow>
               (case Unmarshal L input of
                  Inl err \<Rightarrow>
                    (messageContent, toolResults,
                     logWarn ''Error parsing tool arguments'' [(''error'', err)] st)
                | Inr toolArgs \<Rightarrow>
                    (case CallTool L mcpClient toolName toolArgs (world st) of
                       (Inl err, w) \<Rightarrow>
                         let errMsg = ''Error calling tool '' @ toolName @ '': '' @ err in
                         (messageContent @
                            [ContentBlock ''tool_result'' [] [] (GetID toolCall) [] []
                               (Blocks [textBlock errMsg])],
                          toolResults,
                          logWarn ''Error calling tool'' [(''error'', errMsg)] (st\<lparr>world := w\<rparr>))
                     | (Inr toolResult, w) \<Rightarrow>
                         (case ResultContent toolResult of
                            None \<Rightarrow> (messageContent, toolResults, st\<lparr>world := w\<rparr>)
                          | Some content \<Rightarrow>
                              (messageContent,
                               toolResults @
                                 [ContentBlock ''tool_result''
                                    (TrimSpace L (resultText L content)) [] (GetID toolCall) [] []
                                    (RawContent content)],
                               st\<lparr>world := w\<rparr>)))))"

declare toolCallStep.simps [simp del]

fun handleToolCalls ::
  "('a, 'v, 'c, 'w) lib \<Rightarrow> 'a ToolCall list \<Rightarrow>
   'v ContentBlock list \<times> 'v ContentBlock list \<times> ('a, 'v, 'c, 's, 'w) state \<Rightarrow>
   'v ContentBlock list \<times> 'v ContentBlock list \<times> ('a, 'v, 'c, 's, 'w) state"
where
  "handleToolCalls L [] ls = ls"
| "handleToolCalls L (toolCall # rest) ls = handleToolCalls L rest (toolCallStep L toolCall ls)"

text \<open>
  One pass through the body of \<^verbatim>\<open>runPrompt\<close>, up to the place where it either returns
  or calls itself: \<open>Failed\<close> is \<^verbatim>\<open>return err\<close>, \<open>Continue\<close> the recursive call
  \<^verbatim>\<open>runPrompt("", messages)\<close>, \<open>Done\<close> the final \<^verbatim>\<open>return nil\<close> after the session's
  messages went into \<^verbatim>\<open>modelMessages\<close>. Each carries \<^verbatim>\<open>*messages\<close> and the state.
\<close>

datatype ('a, 'v, 'c, 's, 'w) round =
  Failed string "'v HistoryMessage list" "('a, 'v, 'c, 's, 'w) state"
| Continue "'v HistoryMessage list" "('a, 'v, 'c, 's, 'w) state"
| Done "'v HistoryMessage list" "('a, 'v, 'c, 's, 'w) state"

definition withPrompt :: "string \<Rightarrow> 'v HistoryMessage list \<Rightarrow> 'v HistoryMessage list" where
  "withPrompt prompt messages =
     (if prompt \<noteq> [] then messages @ [\<lparr>Role = ''user'', Contents = [textBlock prompt]\<rparr>]
      else messages)"

definition runRound ::
  "('a, 'v, 'c, 'w) lib \<Rightarrow> string \<Rightarrow> 'v HistoryMessage list \<Rightarrow> ('a, 'v, 'c, 's, 'w) state \<Rightarrow>
   ('a, 'v, 'c, 's, 'w) round"
where
  "runRound L prompt messages0 st =
     (let messages = withPrompt prompt messages0 in
      case modelProvider st of
        None \<Rightarrow>
          Failed ''model provider not initialized'' messages
            (logError ''Model provider not initialized'' [] st)
      | Some provider \<Rightarrow>
          (case provider prompt messages (modelTools st) (world st) of
             (Inl err, w) \<Rightarrow> Failed err messages (st\<lparr>world := w\<rparr>)
           | (Inr message, w) \<Rightarrow>
               let messageContent =
                     (if GetContent message \<noteq> [] then [textBlock (GetContent message)] else [])
               in
               (case handleToolCalls L (GetToolCalls message)
                       (messageContent, [], st\<lparr>world := w\<rparr>) of
                  (messageContent, toolResults, st1) \<Rightarrow>
                    let messages1 =
                          messages @ [\<lparr>Role = GetRole message, Contents = messageContent\<rparr>]
                    in if length toolResults > 0 then
                         Continue (messages1 @ [\<lparr>Role = ''user'', Contents = toolResults\<rparr>]) st1
                       else
                         Done messages1
                           (st1\<lparr>modelMessages := modelMessages st1 @ messages1\<rparr>))))"

text \<open>
  \<^verbatim>\<open>runPrompt\<close> calls itself as long as a round produced tool results, with no bound on
  the number of rounds: \<open>None\<close> is a run that never returns. A result is the returned
  error (\<open>None\<close> for nil), \<^verbatim>\<open>*messages\<close> and the state.
\<close>

partial_function (option) runPrompt ::
  "('a, 'v, 'c, 'w) lib \<Rightarrow> string \<Rightarrow> 'v HistoryMessage list \<Rightarrow> ('a, 'v, 'c, 's, 'w) state \<Rightarrow>
   (string option \<times> 'v HistoryMessage list \<times> ('a, 'v, 'c, 's, 'w) state) option"
where
  "runPrompt L prompt messages st =
     (case runRound L prompt messages st of
        Failed err messages1 st1 \<Rightarrow> Some (Some err, messages1, st1)
      | Continue messages1 st1 \<Rightarrow> runPrompt L [] messages1 st1
      | Done messages1 st1 \<Rightarrow> Some (None, messages1, st1))"

text \<open>
  Vocabulary for statements about a round: the branch of the loop body that a tool call
  takes in a given state, and the branches taken by the calls of a list, each in the state
  its predecessors left.
\<close>

datatype outcome =
  Malformed | UnknownServer | BadArguments | CallFailed | NoContentResult | Produced

definition callOutcome ::
  "('a, 'v, 'c, 'w) lib \<Rightarrow> ('a, 'v, 'c, 's, 'w) state \<Rightarrow> 'a ToolCall \<Rightarrow> outcome"
where
  "callOutcome L st toolCall =
     (let parts = Split (GetName toolCall)
      in if length parts \<noteq> 2 then Malformed
         else
           case map_of (modelMcpClients st) (parts ! 0) of
             None \<Rightarrow> UnknownServer
           | Some mcpClient \<Rightarrow>
               (case Unmarshal L (Marshal L (GetArguments toolCall)) of
                  Inl err \<Rightarrow> BadArguments
                | Inr toolArgs \<Rightarrow>
                    (case CallTool L mcpClient (parts ! 1) toolArgs (world st) of
                       (Inl err, w) \<Rightarrow> CallFailed
                     | (Inr toolResult, w) \<Rightarrow>
                         (case ResultContent toolResult of
                            None \<Rightarrow> NoContentResult
                          | Some content \<Rightarrow> Produced))))"

fun callOutcomes ::
  "('a, 'v, 'c, 'w) lib \<Rightarrow> 'a ToolCall list \<Rightarrow> ('a, 'v, 'c, 's, 'w) state \<Rightarrow> outcome list"
where
  "callOutcomes L [] st = []"
| "callOutcomes L (toolCall # rest) st =
     callOutcome L st toolCall #
     callOutcomes L rest (snd (snd (toolCallStep L toolCall ([], [], st))))"

text \<open>
  The prompt, the messages and the state with which round \<open>k + 1\<close> of a run starts, when
  each of its first \<open>k\<close> rounds ended in the recursive call.
\<close>

fun afterRounds ::
  "('a, 'v, 'c, 'w) lib \<Rightarrow> nat \<Rightarrow> string \<Rightarrow> 'v HistoryMessage list \<Rightarrow>
   ('a, 'v, 'c, 's, 'w) state \<Rightarrow>
   (string \<times> 'v HistoryMessage list \<times> ('a, 'v, 'c, 's, 'w) state) option"
where
  "afterRounds L 0 prompt messages st = Some (prompt, messages, st)"
| "afterRounds L (Suc k) prompt messages st =
     (case runRound L prompt messages st of
        Continue messages1 st1 \<Rightarrow> afterRounds L k [] messages1 st1
      | Failed err messages1 st1 \<Rightarrow> None
      | Done messages1 st1 \<Rightarrow> None)"

section \<open>The history endpoint and the environment\<close>

text \<open>
  Go's \<^verbatim>\<open>int\<close> is 64 bits wide here; \<^verbatim>\<open>len(modelMessages) - messageWindow\<close> wraps
  around. A slice expression whose lower bound is outside \<open>0..len\<close> panics.
\<close>

definition wrap64 :: "int \<Rightarrow> int" where
  "wrap64 x = (x + 2 ^ 63) mod 2 ^ 64 - 2 ^ 63"

datatype panic = SliceBoundsOutOfRange

text \<open>\<^verbatim>\<open>historyHandler\<close>: the messages it serialises into the response, or the panic.\<close>

definition historyHandler ::
  "('a, 'v, 'c, 's, 'w) state \<Rightarrow> panic + 'v HistoryMessage list"
where
  "historyHandler st =
     (let n = int (length (modelMessages st))
      in if n > messageWindow st then
           (let low = wrap64 (n - messageWindow st)
            in if 0 \<le> low \<and> low \<le> n then Inr (drop (nat low) (modelMessages st))
               else Inl SliceBoundsOutOfRange)
         else Inr (modelMessages st))"

text \<open>
  \<^verbatim>\<open>strconv.Atoi\<close>: an optional sign and then decimal digits, at least one. On a syntax
  error the value is 0; out of the range of \<^verbatim>\<open>int\<close> it is the nearest bound.
\<close>

datatype numError = ErrSyntax | ErrRange

definition isDigit :: "char \<Rightarrow> bool" where
  "isDigit ch = (48 \<le> (of_char ch :: nat) \<and> (of_char ch :: nat) \<le> 57)"

definition digitsValue :: "string \<Rightarrow> int" where
  "digitsValue ds = foldl (\<lambda>n ch. n * 10 + int (of_char ch - 48)) 0 ds"

definition Atoi :: "string \<Rightarrow> int \<times> numError option" where
  "Atoi s =
     (let neg = (s \<noteq> [] \<and> hd s = CHR ''-'');
          ds = (if s \<noteq> [] \<and> (hd s = CHR ''-'' \<or> hd s = CHR ''+'') then tl s else s)
      in if ds = [] \<or> \<not> list_all isDigit ds then (0, Some ErrSyntax)
         else
           let un = digitsValue ds
           in if \<not> neg \<and> un \<ge> 2 ^ 63 then (2 ^ 63 - 1, Some ErrRange)
              else if neg \<and> un > 2 ^ 63 then (- (2 ^ 63), Some ErrRange)
              else (if neg then - un else un, None))"

text \<open>\<^verbatim>\<open>os.Getenv\<close>: the empty string for a variable that is not set.\<close>

definition Getenv :: "(string \<rightharpoonup> string) \<Rightarrow> string \<Rightarrow> string" where
  "Getenv env key = (case env key of None \<Rightarrow> [] | Some v \<Rightarrow> v)"

text \<open>
  \<^verbatim>\<open>godotenv.Load(".env")\<close>: the file's pairs in the order of its lines (or the error
  of reading it) are given. Of a key that the file gives more than once the last line
  counts; a variable that is already set keeps its value.
\<close>

definition godotenvLoad ::
  "string + (string \<times> string) list \<Rightarrow> (string \<rightharpoonup> string) \<Rightarrow> string option \<times> (string \<rightharpoonup> string)"
where
  "godotenvLoad file env =
     (case file of
        Inl err \<Rightarrow> (Some err, env)
      | Inr pairs \<Rightarrow>
          (None, (\<lambda>key. case env key of Some v \<Rightarrow> Some v | None \<Rightarrow> map_of (rev pairs) key)))"

definition LoadServerEnv ::
  "string + (string \<times> string) list \<Rightarrow> (string \<rightharpoonup> string) \<Rightarrow>
   ('a, 'v, 'c, 's, 'w) state \<Rightarrow> ('a, 'v, 'c, 's, 'w) state"
where
  "LoadServerEnv file env0 st0 =
     (case godotenvLoad file env0 of
        (loadErr, env) \<Rightarrow>
          let st = (case loadErr of
                      Some err \<Rightarrow>
                        logError ''Failed to load environment variables'' [(''error'', err)] st0
                    | None \<Rightarrow> st0)
          in st\<lparr> configFile := Getenv env ''MCP_CONFIG_PATH'',
                 messageWindow := fst (Atoi (Getenv env ''MCP_MESSAGE_WINDOW'')),
                 modelFlag := Getenv env ''MCP_MODEL'',
                 anthropicAPIKey := Getenv env ''ANTHROPIC_API_KEY'',
                 anthropicBaseURL := Getenv env ''ANTHROPIC_BASE_URL'',
                 openaiBaseURL := Getenv env ''OPENAI_BASE_URL'',
                 openaiAPIKey := Getenv env ''OPENAI_API_KEY'' \<rparr>)"

text \<open>The package-level variables as their declarations initialise them.\<close>

definition initialState :: "'w \<Rightarrow> ('a, 'v, 'c, 's, 'w) state" where
  "initialState w =
     \<lparr> configFile = [], messageWindow = 10, modelFlag = [], anthropicAPIKey = [],
       anthropicBaseURL = [], openaiBaseURL = [], openaiAPIKey = [], modelProvider = None,
       modelMcpClients = [], modelTools = [], modelMessages = [], world = w, logs = [] \<rparr>"

section \<open>Registration of the tool servers (createMCPClients)\<close>
















section \<open>Notions used in the statements\<close>

text \<open>The \<^verbatim>\<open>tool_use\<close> block that the loop body builds for a tool call.\<close>

definition toolUseOf :: "('a, 'v, 'c, 'w) lib \<Rightarrow> 'a ToolCall \<Rightarrow> 'v ContentBlock" where
  "toolUseOf L toolCall =
     toolUseBlock (GetID toolCall) (GetName toolCall) (Marshal L (GetArguments toolCall))"

text \<open>The blocks \<^verbatim>\<open>messageContent\<close> holds before the loop: the free text, if there is any.\<close>

abbreviation freeText :: "'a Message \<Rightarrow> 'v ContentBlock list" where
  "freeText message \<equiv>
     (if GetContent message \<noteq> [] then [textBlock (GetContent message)] else [])"

text \<open>How many calls of a round came back with a result whose content is not nil.\<close>

definition producedCount :: "outcome list \<Rightarrow> nat" where
  "producedCount outs = length (filter (\<lambda>out. out = Produced) outs)"

section \<open>A small host to run\<close>

text \<open>
  The outside world is the list of the calls that went out. Tools are told apart by their
  local name: \<open>fail\<close> returns an error, \<open>quiet\<close> a result with nil content, any other
  name one text item. Arguments are their own JSON text, values print as they are, and
  \<^verbatim>\<open>TrimSpace\<close> removes the ASCII white space at both ends. The backend answers the
  first query with the given tool calls and every later one with \<open>later\<close>.
\<close>

datatype exEvent = ModelCalled nat | ToolCalled nat string string

definition exCallTool ::
  "nat \<Rightarrow> string \<Rightarrow> string \<Rightarrow> exEvent list \<Rightarrow> (string + string CallToolResult) \<times> exEvent list"
where
  "exCallTool client name args w =
     (if name = ''fail'' then Inl ''boom''
      else if name = ''quiet'' then Inr \<lparr>ResultContent = None\<rparr>
      else Inr \<lparr>ResultContent = Some [MapItem [(''text'', ''ok'')]]\<rparr>,
      w @ [ToolCalled client name args])"

definition exIsSpace :: "char \<Rightarrow> bool" where
  "exIsSpace c = ((of_char c :: nat) \<in> {9, 10, 11, 12, 13, 32})"

definition exLib :: "(string, string, nat, exEvent list) lib" where
  "exLib =
     \<lparr> Marshal = (\<lambda>a. a), Unmarshal = Inr, CallTool = exCallTool, Sprint = (\<lambda>v. v),
       TrimSpace = (\<lambda>s. rev (dropWhile exIsSpace (rev (dropWhile exIsSpace s)))) \<rparr>"

definition exAnswer :: "string \<Rightarrow> string ToolCall list \<Rightarrow> string Message" where
  "exAnswer text calls =
     \<lparr>GetRole = ''assistant'', GetContent = text, GetToolCalls = calls, GetUsage = (0, 0)\<rparr>"

definition exProvider ::
  "string ToolCall list \<Rightarrow> string + string Message \<Rightarrow>
   (string, string, unit, exEvent list) Provider"
where
  "exProvider calls later prompt messages tools w =
     (if length messages \<le> 1 then Inr (exAnswer ''ok'' calls) else later,
      w @ [ModelCalled (length messages)])"

definition exState ::
  "string ToolCall list \<Rightarrow> string + string Message \<Rightarrow>
   (string, string, nat, unit, exEvent list) state"
where
  "exState calls later =
     (initialState [])\<lparr> modelProvider := Some (exProvider calls later),
                        modelMcpClients := [(''fs'', 1), (''a'', 2), (''a_'', 3)] \<rparr>"

definition exCall :: "string \<Rightarrow> string ToolCall" where
  "exCall name = \<lparr>GetID = ''id1'', GetName = name, GetArguments = ''{}''\<rparr>"

definition exDone :: "string + string Message" where
  "exDone = Inr (exAnswer ''done'' [])"

definition exTurn :: "string \<Rightarrow> string HistoryMessage" where
  "exTurn text = \<lparr>Role = ''user'', Contents = [textBlock text]\<rparr>"

definition exMcpTool :: "string \<Rightarrow> unit mcpTool" where
  "exMcpTool name =
     \<lparr> mcpName = name, mcpDescription = [],
       mcpInputSchema = \<lparr>mcpType = ''object'', mcpProperties = (), mcpRequired = []\<rparr> \<rparr>"



lemmas ex_defs =
  exCallTool_def exIsSpace_def exLib_def exAnswer_def exProvider_def exState_def exCall_def exDone_def
  exTurn_def initialState_def

section \<open>Properties\<close>

subsection \<open>Splitting and joining names\<close>

lemma Index_at_sep:
  "Index (s @ ''_'') separator = None \<Longrightarrow> Index (s @ separator @ t) separator = Some (length s)"
proof (induction s)
  case Nil
  then show ?case by (simp add: separator_def)
next
  case (Cons c s)
  then show ?case by (cases s) (auto simp: separator_def split: if_splits)
qed

lemma Split_no_sep: "Index t separator = None \<Longrightarrow> Split t = [t]"
  by (subst Split.simps) simp

lemma Split_namespaced:
  assumes "Index (s @ ''_'') separator = None" and "Index t separator = None"
  shows "Split (s @ separator @ t) = [s, t]"
proof -
  have "Index (s @ separator @ t) separator = Some (length s)"
    using assms(1) by (rule Index_at_sep)
  then have "Split (s @ separator @ t) = s # Split t"
    by (subst Split.simps) simp
  then show ?thesis using assms(2) by (simp add: Split_no_sep)
qed

lemma namespacedName_same_local: "namespacedName a t = namespacedName b t \<Longrightarrow> a = b"
  by (simp add: namespacedName_def)

text \<open>
  Two distinct ids can only give the same name when one of them is the other followed by
  one underscore, or by the separator and more; and in each of these cases some pair of
  local names does collide.
\<close>

lemma namespacedName_collision:
  assumes "namespacedName a t1 = namespacedName b t2" and "a \<noteq> b"
  shows "b = a @ ''_'' \<or> prefix (a @ separator) b \<or> a = b @ ''_'' \<or> prefix (b @ separator) a"
proof -
  have one_side: "x = y @ ''_'' \<or> prefix (y @ separator) x"
    if h: "x = y @ us" "us @ separator @ u1 = separator @ u2" "us \<noteq> []"
    for x y us u1 u2 :: string
  proof -
    from h(3) obtain c us' where us: "us = c # us'" by (cases us) auto
    with h(2) have c: "c = CHR ''_''" by (simp add: separator_def)
    show ?thesis
    proof (cases us')
      case Nil
      with us c h(1) show ?thesis by simp
    next
      case (Cons d us'')
      with us c h(2) have "d = CHR ''_''" by (simp add: separator_def)
      with Cons us c h(1) show ?thesis by (simp add: separator_def)
    qed
  qed
  from assms(1) have "a @ (separator @ t1) = b @ (separator @ t2)"
    by (simp add: namespacedName_def)
  then obtain us where
    "(a = b @ us \<and> us @ separator @ t1 = separator @ t2) \<or>
     (a @ us = b \<and> separator @ t1 = us @ separator @ t2)"
    unfolding append_eq_append_conv2 by blast
  then show ?thesis
  proof
    assume h: "a = b @ us \<and> us @ separator @ t1 = separator @ t2"
    with assms(2) have "us \<noteq> []" by auto
    with h have "a = b @ ''_'' \<or> prefix (b @ separator) a" by (intro one_side) auto
    then show ?thesis by blast
  next
    assume h: "a @ us = b \<and> separator @ t1 = us @ separator @ t2"
    with assms(2) have "us \<noteq> []" by auto
    with h have "b = a @ ''_'' \<or> prefix (a @ separator) b"
      by (intro one_side [of b a us t2 t1]) auto
    then show ?thesis by blast
  qed
qed

lemma namespacedName_collision_sharp:
  assumes "b = a @ ''_'' \<or> prefix (a @ separator) b"
  shows "\<exists>t1. namespacedName a t1 = namespacedName b t2"
  using assms
proof
  assume "b = a @ ''_''"
  then have "namespacedName a (''_'' @ t2) = namespacedName b t2"
    by (simp add: namespacedName_def separator_def)
  then show ?thesis ..
next
  assume "prefix (a @ separator) b"
  then obtain r where "b = (a @ separator) @ r" by (auto simp: prefix_def)
  then have "namespacedName a (r @ separator @ t2) = namespacedName b t2"
    by (simp add: namespacedName_def)
  then show ?thesis ..
qed

subsection \<open>The catalog\<close>

text \<open>
  C6, as the claim states it: catalog names of servers with distinct ids never collide.
  They do. Server \<open>x\<close> with its tool \<open>y__z\<close> and server \<open>x__y\<close> with its tool \<open>z\<close>
  get the same catalog name; and so do, with no identifier that contains the separator,
  server \<open>x\<close> with its tool \<open>_y\<close> and server \<open>x_\<close> with its tool \<open>y\<close>.
\<close>

theorem catalog_names_collide:
  "''x'' \<noteq> ''x__y'' \<and>
   map toolName (mcpToolsToAnthropicTools ''x'' [exMcpTool ''y__z'']) =
   map toolName (mcpToolsToAnthropicTools ''x__y'' [exMcpTool ''z'']) \<and>
   ''x'' \<noteq> ''x_'' \<and>
   map toolName (mcpToolsToAnthropicTools ''x'' [exMcpTool ''_y'']) =
   map toolName (mcpToolsToAnthropicTools ''x_'' [exMcpTool ''y''])"
  by (simp add: mcpToolsToAnthropicTools_def namespacedName_def separator_def exMcpTool_def)

text \<open>
  C6, amended: the catalog entries of two servers with distinct ids \<open>a\<close> and \<open>b\<close>, at
  any two positions of their tool lists, have distinct names when the two tools have the
  same local name, and also when neither id is the other followed by one underscore and
  neither id followed by the separator is a prefix of the other id. (In each of the
  excluded cases some pair of local names collides, by the lemma above.)
\<close>

theorem catalog_names_distinct:
  assumes "a \<noteq> b" and "i < length ta" and "j < length tb"
    and "mcpName (ta ! i) = mcpName (tb ! j) \<or>
         (b \<noteq> a @ ''_'' \<and> \<not> prefix (a @ separator) b \<and>
          a \<noteq> b @ ''_'' \<and> \<not> prefix (b @ separator) a)"
  shows "toolName (mcpToolsToAnthropicTools a ta ! i) \<noteq>
         toolName (mcpToolsToAnthropicTools b tb ! j)"
proof
  assume "toolName (mcpToolsToAnthropicTools a ta ! i) =
          toolName (mcpToolsToAnthropicTools b tb ! j)"
  with assms(2,3) have e:
    "namespacedName a (mcpName (ta ! i)) = namespacedName b (mcpName (tb ! j))"
    by (simp add: mcpToolsToAnthropicTools_def)
  from assms(4) show False
  proof
    assume "mcpName (ta ! i) = mcpName (tb ! j)"
    with e have "a = b" by (simp add: namespacedName_same_local)
    with assms(1) show False by simp
  next
    assume "b \<noteq> a @ ''_'' \<and> \<not> prefix (a @ separator) b \<and>
          a \<noteq> b @ ''_'' \<and> \<not> prefix (b @ separator) a"
    with namespacedName_collision [OF e assms(1)] show False by blast
  qed
qed

theorem catalog_names_distinct_witness:
  "toolName (mcpToolsToAnthropicTools ''fs'' [exMcpTool ''read''] ! 0) \<noteq>
   toolName (mcpToolsToAnthropicTools ''git'' [exMcpTool ''read''] ! 0) \<and>
   toolName (mcpToolsToAnthropicTools ''fs'' [exMcpTool ''read'', exMcpTool ''list''] ! 1) \<noteq>
   toolName (mcpToolsToAnthropicTools ''git'' [exMcpTool ''log''] ! 0) \<and>
   toolName (mcpToolsToAnthropicTools ''git'' [exMcpTool ''_log''] ! 0) \<noteq>
   toolName (mcpToolsToAnthropicTools ''git_hub'' [exMcpTool ''log''] ! 0)"
proof -
  have h1: "''fs'' \<noteq> ''git''" by simp
  have h2: "(0::nat) < length [exMcpTool ''read'']" by simp
  have h3: "mcpName ([exMcpTool ''read''] ! 0) = mcpName ([exMcpTool ''read''] ! 0) \<or>
    (''git'' \<noteq> ''fs'' @ ''_'' \<and> \<not> prefix (''fs'' @ separator) ''git'' \<and>
     ''fs'' \<noteq> ''git'' @ ''_'' \<and> \<not> prefix (''git'' @ separator) ''fs'')" by simp
  have k2: "(1::nat) < length [exMcpTool ''read'', exMcpTool ''list'']" by simp
  have k3: "(0::nat) < length [exMcpTool ''log'']" by simp
  have k4: "mcpName ([exMcpTool ''read'', exMcpTool ''list''] ! 1) =
      mcpName ([exMcpTool ''log''] ! 0) \<or>
    (''git'' \<noteq> ''fs'' @ ''_'' \<and> \<not> prefix (''fs'' @ separator) ''git'' \<and>
     ''fs'' \<noteq> ''git'' @ ''_'' \<and> \<not> prefix (''git'' @ separator) ''fs'')"
    by (simp add: separator_def)
  have g1: "''git'' \<noteq> ''git_hub''" by simp
  have g2: "(0::nat) < length [exMcpTool ''_log'']" by simp
  have g4: "mcpName ([exMcpTool ''_log''] ! 0) = mcpName ([exMcpTool ''log''] ! 0) \<or>
    (''git_hub'' \<noteq> ''git'' @ ''_'' \<and> \<not> prefix (''git'' @ separator) ''git_hub'' \<and>
     ''git'' \<noteq> ''git_hub'' @ ''_'' \<and> \<not> prefix (''git_hub'' @ separator) ''git'')"
    by (simp add: separator_def)
  show ?thesis
    by (intro conjI catalog_names_distinct [OF h1 h2 h2 h3]
          catalog_names_distinct [OF h1 k2 k3 k4] catalog_names_distinct [OF g1 g2 k3 g4])
qed

subsection \<open>The history window\<close>

text \<open>
  C7: for a window size \<open>n \<ge> 0\<close> and a history of length \<open>m\<close> (both within Go's
  \<^verbatim>\<open>int\<close>), the history endpoint returns \<open>min n m\<close> turns, and they are the last ones
  of the history, in their order there.
\<close>

theorem history_window:
  assumes "0 \<le> messageWindow st" and "messageWindow st < 2 ^ 63"
    and "int (length (modelMessages st)) < 2 ^ 63"
  shows "\<exists>ret. historyHandler st = Inr ret \<and>
           length ret = min (nat (messageWindow st)) (length (modelMessages st)) \<and>
           ret = drop (length (modelMessages st) - length ret) (modelMessages st)"
proof (cases "int (length (modelMessages st)) > messageWindow st")
  case True
  let ?d = "int (length (modelMessages st)) - messageWindow st"
  have "0 < ?d" "?d < 2 ^ 63" using True assms by auto
  then have w: "wrap64 ?d = ?d" by (simp add: wrap64_def)
  have "historyHandler st = Inr (drop (nat ?d) (modelMessages st))"
    using True assms(1) w by (simp add: historyHandler_def Let_def)
  moreover have "length (drop (nat ?d) (modelMessages st)) = nat (messageWindow st)"
    using True assms(1) by simp
  ultimately show ?thesis using True assms(1)
    by (auto simp: min_def nat_diff_distrib)
next
  case False
  then show ?thesis using assms(1) by (auto simp: historyHandler_def Let_def min_def)
qed

theorem history_window_witness:
  "historyHandler
     ((exState [] exDone)\<lparr>messageWindow := 2,
        modelMessages := [exTurn ''one'', exTurn ''two'', exTurn ''three'']\<rparr>) =
   Inr [exTurn ''two'', exTurn ''three'']"
proof -
  let ?st = "(exState [] exDone)\<lparr>messageWindow := 2,
        modelMessages := [exTurn ''one'', exTurn ''two'', exTurn ''three'']\<rparr>"
  have h1: "0 \<le> messageWindow ?st" by simp
  have h2: "messageWindow ?st < 2 ^ 63" by simp
  have h3: "int (length (modelMessages ?st)) < 2 ^ 63" by simp
  from history_window [OF h1 h2 h3] show ?thesis by auto
qed

subsection \<open>One tool call\<close>

lemma step_malformed:
  "length (Split (GetName tc)) \<noteq> 2 \<Longrightarrow>
   toolCallStep L tc (mc, tr, st) =
     (mc @ [toolUseOf L tc], tr,
      logWarn ''Invalid tool name format'' [(''name'', GetName tc)] st)"
  by (simp add: toolCallStep.simps toolUseOf_def Let_def)

lemma step_unknown_server:
  "Split (GetName tc) = [s, t] \<Longrightarrow> map_of (modelMcpClients st) s = None \<Longrightarrow>
   toolCallStep L tc (mc, tr, st) =
     (mc @ [toolUseOf L tc], tr, logWarn ''Server not found'' [(''server'', s)] st)"
  by (simp add: toolCallStep.simps toolUseOf_def Let_def)

lemma step_world_routed:
  "Split (GetName tc) = [s, t] \<Longrightarrow> map_of (modelMcpClients st) s = Some c \<Longrightarrow>
   Unmarshal L (Marshal L (GetArguments tc)) = Inr args \<Longrightarrow>
   world (snd (snd (toolCallStep L tc (mc, tr, st)))) = snd (CallTool L c t args (world st))"
  by (simp add: toolCallStep.simps Let_def logWarn_def split: prod.splits sum.splits option.splits)

text \<open>What one step adds, told by the outcome of the call.\<close>

lemma step_shape:
  "\<exists>extra res st1.
     toolCallStep L tc (mc, tr, st) = (mc @ toolUseOf L tc # extra, tr @ res, st1) \<and>
     toolCallStep L tc ([], [], st) = (toolUseOf L tc # extra, res, st1) \<and>
     length res = (if callOutcome L st tc = Produced then 1 else 0) \<and>
     (\<forall>b \<in> set res. Type b = ''tool_result'') \<and>
     (\<forall>b \<in> set extra. Type b = ''tool_result'') \<and>
     (callOutcome L st tc \<noteq> CallFailed \<longrightarrow> extra = []) \<and>
     modelMessages st1 = modelMessages st \<and> modelProvider st1 = modelProvider st \<and>
     modelTools st1 = modelTools st \<and> modelMcpClients st1 = modelMcpClients st"
  by (auto simp: toolCallStep.simps callOutcome_def toolUseOf_def Let_def logWarn_def
           split: option.splits sum.splits prod.splits)

lemma step_no_content_explicit:
  "Split (GetName tc) = [s, t] \<Longrightarrow> map_of (modelMcpClients st) s = Some c \<Longrightarrow>
   Unmarshal L (Marshal L (GetArguments tc)) = Inr args \<Longrightarrow>
   CallTool L c t args (world st) = (Inr res, w) \<Longrightarrow> ResultContent res = None \<Longrightarrow>
   toolCallStep L tc (mc, tr, st) = (mc @ [toolUseOf L tc], tr, st\<lparr>world := w\<rparr>)"
  by (simp add: toolCallStep.simps toolUseOf_def Let_def)

lemma length_two: "length xs = 2 \<Longrightarrow> \<exists>a b. xs = [a, b]"
proof (cases xs)
  case Nil
  assume "length xs = 2"
  with Nil show ?thesis by simp
next
  case (Cons a ys)
  assume "length xs = 2"
  with Cons have "length ys = 1" by simp
  then obtain b where "ys = [b]" by (cases ys) auto
  with Cons show ?thesis by simp
qed

lemma outcome_no_content:
  assumes "callOutcome L st tc = NoContentResult"
  shows "\<exists>s t c args res w.
     Split (GetName tc) = [s, t] \<and> map_of (modelMcpClients st) s = Some c \<and>
     Unmarshal L (Marshal L (GetArguments tc)) = Inr args \<and>
     CallTool L c t args (world st) = (Inr res, w) \<and> ResultContent res = None"
proof -
  have "length (Split (GetName tc)) = 2"
    using assms by (simp add: callOutcome_def Let_def split: if_splits)
  then obtain s t where sp: "Split (GetName tc) = [s, t]"
    using length_two by blast
  with assms have
    "(case map_of (modelMcpClients st) s of
        None \<Rightarrow> UnknownServer
      | Some mcpClient \<Rightarrow>
          (case Unmarshal L (Marshal L (GetArguments tc)) of
             Inl err \<Rightarrow> BadArguments
           | Inr toolArgs \<Rightarrow>
               (case CallTool L mcpClient ([s, t] ! 1) toolArgs (world st) of
                  (Inl err, w) \<Rightarrow> CallFailed
                | (Inr toolResult, w) \<Rightarrow>
                    (case ResultContent toolResult of
                       None \<Rightarrow> NoContentResult
                     | Some content \<Rightarrow> Produced)))) = NoContentResult"
    by (simp add: callOutcome_def)
  then show ?thesis using sp
    by (auto split: option.splits sum.splits prod.splits)
qed

lemma step_no_content:
  assumes "callOutcome L st tc = NoContentResult"
  shows "\<exists>w. toolCallStep L tc (mc, tr, st) = (mc @ [toolUseOf L tc], tr, st\<lparr>world := w\<rparr>)"
proof -
  from outcome_no_content [OF assms] obtain s t c args res w where
    "Split (GetName tc) = [s, t]" "map_of (modelMcpClients st) s = Some c"
    "Unmarshal L (Marshal L (GetArguments tc)) = Inr args"
    "CallTool L c t args (world st) = (Inr res, w)" "ResultContent res = None"
    by blast
  then have "toolCallStep L tc (mc, tr, st) = (mc @ [toolUseOf L tc], tr, st\<lparr>world := w\<rparr>)"
    by (rule step_no_content_explicit)
  then show ?thesis ..
qed

text \<open>
  C3, as the claim states it: a call whose name does not split into two segments emits no
  block of any kind. The call named \<open>bad\<close> leaves its \<^verbatim>\<open>tool_use\<close> block in the content of
  the assistant turn.
\<close>

theorem malformed_name_emits_tool_use:
  "length (Split (GetName (exCall ''bad''))) \<noteq> 2 \<and>
   fst (toolCallStep exLib (exCall ''bad'') ([], [], exState [exCall ''bad''] exDone)) =
     [toolUseBlock ''id1'' ''bad'' ''{}'']"
  by (simp add: toolCallStep.simps ex_defs Let_def Split.simps separator_def)

text \<open>
  C3, amended: for a tool call whose name does not split into exactly two segments at the
  separator, the loop body adds the call's \<^verbatim>\<open>tool_use\<close> block to the content of the
  assistant turn and nothing else: no \<^verbatim>\<open>tool_result\<close> block in either turn, no call to
  any connection (the outside world is as before), and one warning in the log.
\<close>

theorem malformed_name_skipped:
  assumes "length (Split (GetName tc)) \<noteq> 2"
  shows "toolCallStep L tc (mc, tr, st) =
           (mc @ [toolUseOf L tc], tr,
            st\<lparr>logs := logs st @
                  [(WarnLevel, ''Invalid tool name format'', [(''name'', GetName tc)])]\<rparr>)"
  using step_malformed [OF assms] by (simp add: logWarn_def)

theorem malformed_name_skipped_witness:
  "length (Split (GetName (exCall ''a__b__c''))) \<noteq> 2 \<and>
   toolCallStep exLib (exCall ''a__b__c'') ([], [], exState [] exDone) =
     ([toolUseOf exLib (exCall ''a__b__c'')], [],
      (exState [] exDone)\<lparr>logs := logs (exState [] exDone) @
         [(WarnLevel, ''Invalid tool name format'',
           [(''name'', GetName (exCall ''a__b__c''))])]\<rparr>)"
proof -
  have h: "length (Split (GetName (exCall ''a__b__c''))) \<noteq> 2"
    by (simp add: exCall_def Split.simps separator_def)
  from malformed_name_skipped [OF h, of exLib "[]" "[]" "exState [] exDone"] h
  show ?thesis by simp
qed

text \<open>
  C5, as the claim states it: a name \<open>s + separator + t\<close> is routed to the connection
  registered under \<open>s\<close> with the local name \<open>t\<close>. With \<open>s\<close> = \<open>a_\<close> and \<open>t\<close> = \<open>b\<close> the
  name is \<open>a___b\<close>, which is cut after the \<open>a\<close>: although \<open>a_\<close> is registered (client 3),
  the call goes to the client of \<open>a\<close> (client 2), for the tool \<open>_b\<close>.
\<close>

theorem routing_by_leftmost_separator:
  "GetName (exCall ''a___b'') = ''a_'' @ separator @ ''b'' \<and>
   map_of (modelMcpClients (exState [] exDone)) ''a_'' = Some 3 \<and>
   world (snd (snd (toolCallStep exLib (exCall ''a___b'') ([], [], exState [] exDone)))) =
     [ToolCalled 2 ''_b'' ''{}'']"
  by (simp add: toolCallStep.simps ex_defs Let_def Split.simps separator_def)

text \<open>
  C5, amended: let the name of a tool call be \<open>s + separator + t\<close>, where the separator
  occurs neither in \<open>s\<close> followed by one underscore nor in \<open>t\<close> (so that the name splits
  into \<open>s\<close> and \<open>t\<close>). If a connection is registered under \<open>s\<close> and the arguments come
  back from their JSON text, the one call that goes out is \<^verbatim>\<open>CallTool\<close> on that connection
  with the local name \<open>t\<close> and those arguments; if none is registered under \<open>s\<close>, nothing
  goes out and the warning \<open>Server not found\<close> is logged. A name that does not split into
  exactly two segments is rejected with a warning before any connection is looked up.
\<close>

theorem dispatch_routes_by_split:
  "(GetName tc = s @ separator @ t \<and> Index (s @ ''_'') separator = None \<and>
    Index t separator = None \<longrightarrow>
      (\<forall>c args. map_of (modelMcpClients st) s = Some c \<and>
           Unmarshal L (Marshal L (GetArguments tc)) = Inr args \<longrightarrow>
           world (snd (snd (toolCallStep L tc (mc, tr, st)))) =
             snd (CallTool L c t args (world st))) \<and>
      (map_of (modelMcpClients st) s = None \<longrightarrow>
         toolCallStep L tc (mc, tr, st) =
           (mc @ [toolUseOf L tc], tr,
            st\<lparr>logs := logs st @ [(WarnLevel, ''Server not found'', [(''server'', s)])]\<rparr>))) \<and>
   (length (Split (GetName tc)) \<noteq> 2 \<longrightarrow>
      toolCallStep L tc (mc, tr, st) =
        (mc @ [toolUseOf L tc], tr,
         st\<lparr>logs := logs st @
               [(WarnLevel, ''Invalid tool name format'', [(''name'', GetName tc)])]\<rparr>))"
proof (intro conjI impI allI)
  fix c args
  assume n: "GetName tc = s @ separator @ t \<and> Index (s @ ''_'') separator = None \<and>
    Index t separator = None"
    and r: "map_of (modelMcpClients st) s = Some c \<and>
           Unmarshal L (Marshal L (GetArguments tc)) = Inr args"
  from n have "Split (GetName tc) = [s, t]" by (simp add: Split_namespaced)
  with r show "world (snd (snd (toolCallStep L tc (mc, tr, st)))) =
      snd (CallTool L c t args (world st))"
    by (simp add: step_world_routed)
next
  assume n: "GetName tc = s @ separator @ t \<and> Index (s @ ''_'') separator = None \<and>
    Index t separator = None"
    and r: "map_of (modelMcpClients st) s = None"
  from n have "Split (GetName tc) = [s, t]" by (simp add: Split_namespaced)
  with r show "toolCallStep L tc (mc, tr, st) =
           (mc @ [toolUseOf L tc], tr,
            st\<lparr>logs := logs st @ [(WarnLevel, ''Server not found'', [(''server'', s)])]\<rparr>)"
    by (simp add: step_unknown_server logWarn_def)
next
  assume "length (Split (GetName tc)) \<noteq> 2"
  then show "toolCallStep L tc (mc, tr, st) =
        (mc @ [toolUseOf L tc], tr,
         st\<lparr>logs := logs st @
               [(WarnLevel, ''Invalid tool name format'', [(''name'', GetName tc)])]\<rparr>)"
    by (simp add: step_malformed logWarn_def)
qed

theorem dispatch_routes_by_split_witness:
  "world (snd (snd (toolCallStep exLib (exCall ''fs__list'')
      ([], [], exState [] exDone)))) = [ToolCalled 1 ''list'' ''{}''] \<and>
   toolCallStep exLib (exCall ''ghost__tool'') ([], [], exState [] exDone) =
     ([toolUseOf exLib (exCall ''ghost__tool'')], [],
      (exState [] exDone)\<lparr>logs := logs (exState [] exDone) @
         [(WarnLevel, ''Server not found'', [(''server'', ''ghost'')])]\<rparr>) \<and>
   toolCallStep exLib (exCall ''plain'') ([], [], exState [] exDone) =
     ([toolUseOf exLib (exCall ''plain'')], [],
      (exState [] exDone)\<lparr>logs := logs (exState [] exDone) @
         [(WarnLevel, ''Invalid tool name format'',
           [(''name'', GetName (exCall ''plain''))])]\<rparr>)"
proof -
  let ?st = "exState [] exDone"
  have n1: "GetName (exCall ''fs__list'') = ''fs'' @ separator @ ''list'' \<and>
      Index (''fs'' @ ''_'') separator = None \<and> Index ''list'' separator = None"
    by (simp add: exCall_def separator_def)
  have r1: "map_of (modelMcpClients ?st) ''fs'' = Some 1 \<and>
      Unmarshal exLib (Marshal exLib (GetArguments (exCall ''fs__list''))) = Inr ''{}''"
    by (simp add: ex_defs)
  have n2: "GetName (exCall ''ghost__tool'') = ''ghost'' @ separator @ ''tool'' \<and>
      Index (''ghost'' @ ''_'') separator = None \<and> Index ''tool'' separator = None"
    by (simp add: exCall_def separator_def)
  have r2: "map_of (modelMcpClients ?st) ''ghost'' = None"
    by (simp add: ex_defs)
  have n3: "length (Split (GetName (exCall ''plain''))) \<noteq> 2"
    by (simp add: exCall_def Split.simps separator_def)
  have "world (snd (snd (toolCallStep exLib (exCall ''fs__list'') ([], [], ?st)))) =
      snd (CallTool exLib 1 ''list'' ''{}'' (world ?st))"
    using dispatch_routes_by_split [of "exCall ''fs__list''" "''fs''" "''list''" ?st exLib "[]" "[]"]
      n1 r1 by blast
  then have c1: "world (snd (snd (toolCallStep exLib (exCall ''fs__list'') ([], [], ?st)))) =
      [ToolCalled 1 ''list'' ''{}'']"
    by (simp add: ex_defs)
  have c2: "toolCallStep exLib (exCall ''ghost__tool'') ([], [], ?st) =
     ([toolUseOf exLib (exCall ''ghost__tool'')], [],
      ?st\<lparr>logs := logs ?st @ [(WarnLevel, ''Server not found'', [(''server'', ''ghost'')])]\<rparr>)"
    using dispatch_routes_by_split [of "exCall ''ghost__tool''" "''ghost''" "''tool''" ?st exLib "[]" "[]"]
      n2 r2 by simp
  have c3: "toolCallStep exLib (exCall ''plain'') ([], [], ?st) =
     ([toolUseOf exLib (exCall ''plain'')], [],
      ?st\<lparr>logs := logs ?st @
         [(WarnLevel, ''Invalid tool name format'', [(''name'', GetName (exCall ''plain''))])]\<rparr>)"
    using dispatch_routes_by_split [of "exCall ''plain''" "[]" "[]" ?st exLib "[]" "[]"] n3
    by simp
  from c1 c2 c3 show ?thesis by blast
qed

subsection \<open>One round\<close>

lemma handleToolCalls_shape:
  "\<exists>rest res st1.
     handleToolCalls L calls (mc, tr, st) = (mc @ rest, tr @ res, st1) \<and>
     filter (\<lambda>b. Type b = ''tool_use'') rest = map (toolUseOf L) calls \<and>
     (\<forall>b \<in> set rest. Type b \<noteq> ''text'') \<and>
     (calls = [] \<longrightarrow> rest = []) \<and>
     ((\<forall>out \<in> set (callOutcomes L calls st). out \<noteq> CallFailed) \<longrightarrow>
        rest = map (toolUseOf L) calls) \<and>
     length res = producedCount (callOutcomes L calls st) \<and>
     (\<forall>b \<in> set res. Type b = ''tool_result'') \<and>
     modelMessages st1 = modelMessages st \<and> modelProvider st1 = modelProvider st \<and>
     modelTools st1 = modelTools st \<and> modelMcpClients st1 = modelMcpClients st"
proof (induction calls arbitrary: mc tr st)
  case Nil
  show ?case by (simp add: producedCount_def)
next
  case (Cons tc calls)
  obtain extra res0 st0 where
    s1: "toolCallStep L tc (mc, tr, st) = (mc @ toolUseOf L tc # extra, tr @ res0, st0)" and
    s2: "toolCallStep L tc ([], [], st) = (toolUseOf L tc # extra, res0, st0)" and
    s3: "length res0 = (if callOutcome L st tc = Produced then 1 else 0)" and
    s4: "\<forall>b \<in> set res0. Type b = ''tool_result''" and
    s5: "\<forall>b \<in> set extra. Type b = ''tool_result''" and
    s6: "callOutcome L st tc \<noteq> CallFailed \<longrightarrow> extra = []" and
    s7: "modelMessages st0 = modelMessages st" "modelProvider st0 = modelProvider st"
        "modelTools st0 = modelTools st" "modelMcpClients st0 = modelMcpClients st"
    using step_shape [of L tc mc tr st] by blast
  obtain rest res st1 where
    h1: "handleToolCalls L calls (mc @ toolUseOf L tc # extra, tr @ res0, st0) =
           ((mc @ toolUseOf L tc # extra) @ rest, (tr @ res0) @ res, st1)" and
    h2: "filter (\<lambda>b. Type b = ''tool_use'') rest = map (toolUseOf L) calls" and
    h3: "\<forall>b \<in> set rest. Type b \<noteq> ''text''" and
    h4: "(\<forall>out \<in> set (callOutcomes L calls st0). out \<noteq> CallFailed) \<longrightarrow>
           rest = map (toolUseOf L) calls" and
    h5: "length res = producedCount (callOutcomes L calls st0)" and
    h6: "\<forall>b \<in> set res. Type b = ''tool_result''" and
    h7: "modelMessages st1 = modelMessages st0" "modelProvider st1 = modelProvider st0"
        "modelTools st1 = modelTools st0" "modelMcpClients st1 = modelMcpClients st0"
    using Cons.IH [of "mc @ toolUseOf L tc # extra" "tr @ res0" st0] by blast
  have use: "Type (toolUseOf L tc) = ''tool_use''"
    by (simp add: toolUseOf_def toolUseBlock_def)
  have outs: "callOutcomes L (tc # calls) st = callOutcome L st tc # callOutcomes L calls st0"
    using s2 by simp
  have "handleToolCalls L (tc # calls) (mc, tr, st) =
          (mc @ (toolUseOf L tc # extra @ rest), tr @ (res0 @ res), st1)"
    using s1 h1 by simp
  moreover have "filter (\<lambda>b. Type b = ''tool_use'') (toolUseOf L tc # extra @ rest) =
      map (toolUseOf L) (tc # calls)"
    using use s5 h2 by simp
  moreover have "\<forall>b \<in> set (toolUseOf L tc # extra @ rest). Type b \<noteq> ''text''"
    using use s5 h3 by auto
  moreover have "(\<forall>out \<in> set (callOutcomes L (tc # calls) st). out \<noteq> CallFailed) \<longrightarrow>
      toolUseOf L tc # extra @ rest = map (toolUseOf L) (tc # calls)"
    using outs s6 h4 by simp
  moreover have "length (res0 @ res) = producedCount (callOutcomes L (tc # calls) st)"
    using outs s3 h5 by (simp add: producedCount_def)
  moreover have "\<forall>b \<in> set (res0 @ res). Type b = ''tool_result''"
    using s4 h6 by auto
  ultimately show ?case using s7 h7 by (intro exI [of _ "toolUseOf L tc # extra @ rest"]
      exI [of _ "res0 @ res"] exI [of _ st1]) simp
qed

lemma runRound_answered:
  assumes "modelProvider st = Some provider"
    and "provider prompt (withPrompt prompt messages) (modelTools st) (world st) = (Inr message, w)"
  shows "\<exists>rest res st1.
     filter (\<lambda>b. Type b = ''tool_use'') rest = map (toolUseOf L) (GetToolCalls message) \<and>
     (\<forall>b \<in> set rest. Type b \<noteq> ''text'') \<and>
     (GetToolCalls message = [] \<longrightarrow> rest = []) \<and>
     ((\<forall>out \<in> set (callOutcomes L (GetToolCalls message) (st\<lparr>world := w\<rparr>)).
          out \<noteq> CallFailed) \<longrightarrow> rest = map (toolUseOf L) (GetToolCalls message)) \<and>
     length res = producedCount (callOutcomes L (GetToolCalls message) (st\<lparr>world := w\<rparr>)) \<and>
     (\<forall>b \<in> set res. Type b = ''tool_result'') \<and>
     modelMessages st1 = modelMessages st \<and>
     runRound L prompt messages st =
       (if res \<noteq> [] then
          Continue (withPrompt prompt messages @
                    [\<lparr>Role = GetRole message, Contents = freeText message @ rest\<rparr>,
                     \<lparr>Role = ''user'', Contents = res\<rparr>]) st1
        else
          Done (withPrompt prompt messages @
                [\<lparr>Role = GetRole message, Contents = freeText message @ rest\<rparr>])
            (st1\<lparr>modelMessages := modelMessages st1 @ withPrompt prompt messages @
                [\<lparr>Role = GetRole message, Contents = freeText message @ rest\<rparr>]\<rparr>))"
proof -
  obtain rest res st1 where
    h: "handleToolCalls L (GetToolCalls message) (freeText message, [], st\<lparr>world := w\<rparr>) =
          (freeText message @ rest, [] @ res, st1)" and
    r: "filter (\<lambda>b. Type b = ''tool_use'') rest = map (toolUseOf L) (GetToolCalls message)"
       "\<forall>b \<in> set rest. Type b \<noteq> ''text''"
       "GetToolCalls message = [] \<longrightarrow> rest = []"
       "(\<forall>out \<in> set (callOutcomes L (GetToolCalls message) (st\<lparr>world := w\<rparr>)).
          out \<noteq> CallFailed) \<longrightarrow> rest = map (toolUseOf L) (GetToolCalls message)"
       "length res = producedCount (callOutcomes L (GetToolCalls message) (st\<lparr>world := w\<rparr>))"
       "\<forall>b \<in> set res. Type b = ''tool_result''"
       "modelMessages st1 = modelMessages (st\<lparr>world := w\<rparr>)"
    using handleToolCalls_shape [of L "GetToolCalls message" "freeText message" "[]"
        "st\<lparr>world := w\<rparr>"] by blast
  have "runRound L prompt messages st =
       (if res \<noteq> [] then
          Continue (withPrompt prompt messages @
                    [\<lparr>Role = GetRole message, Contents = freeText message @ rest\<rparr>,
                     \<lparr>Role = ''user'', Contents = res\<rparr>]) st1
        else
          Done (withPrompt prompt messages @
                [\<lparr>Role = GetRole message, Contents = freeText message @ rest\<rparr>])
            (st1\<lparr>modelMessages := modelMessages st1 @ withPrompt prompt messages @
                [\<lparr>Role = GetRole message, Contents = freeText message @ rest\<rparr>]\<rparr>))"
    using assms h by (simp add: runRound_def Let_def)
  with r show ?thesis by (intro exI [of _ rest] exI [of _ res] exI [of _ st1]) simp
qed

lemma runRound_provider_fails:
  "modelProvider st = Some provider \<Longrightarrow>
   provider prompt (withPrompt prompt messages) (modelTools st) (world st) = (Inl err, w) \<Longrightarrow>
   runRound L prompt messages st = Failed err (withPrompt prompt messages) (st\<lparr>world := w\<rparr>)"
  by (simp add: runRound_def Let_def)

lemma runRound_Continue_frame:
  assumes "runRound L prompt messages st = Continue messages1 st1"
  shows "modelMessages st1 = modelMessages st"
proof (cases "modelProvider st")
  case None
  with assms show ?thesis by (simp add: runRound_def Let_def)
next
  case (Some provider)
  obtain r w where
    pr: "provider prompt (withPrompt prompt messages) (modelTools st) (world st) = (r, w)"
    by (cases "provider prompt (withPrompt prompt messages) (modelTools st) (world st)")
  show ?thesis
  proof (cases r)
    case (Inl err)
    with assms Some pr show ?thesis by (simp add: runRound_def Let_def)
  next
    case (Inr message)
    with runRound_answered [OF Some, of prompt messages message w L] pr assms
    show ?thesis by (auto split: if_splits)
  qed
qed

subsection \<open>The loop over the rounds\<close>

lemma runPrompt_Done:
  "runRound L prompt messages st = Done messages1 st1 \<Longrightarrow>
   runPrompt L prompt messages st = Some (None, messages1, st1)"
  by (subst runPrompt.simps) simp

lemma runPrompt_Failed:
  "runRound L prompt messages st = Failed err messages1 st1 \<Longrightarrow>
   runPrompt L prompt messages st = Some (Some err, messages1, st1)"
  by (subst runPrompt.simps) simp

lemma runPrompt_Continue:
  "runRound L prompt messages st = Continue messages1 st1 \<Longrightarrow>
   runPrompt L prompt messages st = runPrompt L [] messages1 st1"
  by (subst runPrompt.simps) simp

lemma afterRounds_runPrompt:
  "afterRounds L k prompt messages st = Some (prompt1, messages1, st1) \<Longrightarrow>
   runPrompt L prompt messages st = runPrompt L prompt1 messages1 st1 \<and>
   modelMessages st1 = modelMessages st"
proof (induction k arbitrary: prompt messages st)
  case 0
  then show ?case by simp
next
  case (Suc k)
  then obtain m s where c: "runRound L prompt messages st = Continue m s"
    and a: "afterRounds L k [] m s = Some (prompt1, messages1, st1)"
    by (auto split: round.splits)
  from Suc.IH [OF a] runPrompt_Continue [OF c] runRound_Continue_frame [OF c]
  show ?case by simp
qed

subsection \<open>The turns of a round\<close>

lemma producedCount_none: "\<forall>out \<in> set outs. out \<noteq> Produced \<Longrightarrow> producedCount outs = 0"
  by (induction outs) (auto simp: producedCount_def)

text \<open>
  C1, as the claim states it: a round in which \<open>j > 0\<close> calls have a well-formed name, a
  known server and a successful invocation appends a user turn with \<open>j\<close> results. Here
  the one call of the round is such a call (the tool \<open>quiet\<close> of server \<open>fs\<close> returns
  without an error, with nil content), and the round ends the loop with the prompt and
  the assistant turn only.
\<close>

theorem successful_call_without_user_turn:
  "callOutcomes exLib [exCall ''fs__quiet'']
     ((exState [exCall ''fs__quiet''] exDone)\<lparr>world := [ModelCalled 1]\<rparr>) = [NoContentResult] \<and>
   runRound exLib ''go'' [] (exState [exCall ''fs__quiet''] exDone) =
     Done [exTurn ''go'',
           \<lparr>Role = ''assistant'',
              Contents = [textBlock ''ok'', toolUseBlock ''id1'' ''fs__quiet'' ''{}'']\<rparr>]
       ((exState [exCall ''fs__quiet''] exDone)
          \<lparr>world := [ModelCalled 1, ToolCalled 1 ''quiet'' ''{}''],
            modelMessages :=
              [exTurn ''go'',
               \<lparr>Role = ''assistant'',
                  Contents = [textBlock ''ok'', toolUseBlock ''id1'' ''fs__quiet'' ''{}'']\<rparr>]\<rparr>)"
  by (simp add: runRound_def withPrompt_def callOutcome_def toolCallStep.simps ex_defs Let_def
        Split.simps separator_def)

text \<open>
  C1, amended: when the backend answers with a message, let \<open>j\<close> be the number of its
  tool calls that have a well-formed name, a known server, arguments that come back from
  their JSON text, and an invocation that returns without an error and with content that
  is not nil. The round appends exactly one turn with the role of the message, whose
  content is the free text block (if the text is not empty) followed by blocks among
  which there is no text block and, in the order of the calls, exactly one \<^verbatim>\<open>tool_use\<close>
  block for every tool call of the message; when no invocation of the round returned an
  error, these \<^verbatim>\<open>tool_use\<close> blocks are all that follows the free text (nothing when
  there are no calls). If \<open>j > 0\<close>
  it then appends exactly one user turn of exactly \<open>j\<close> blocks, all \<^verbatim>\<open>tool_result\<close>, and
  goes on to the next round; if \<open>j = 0\<close> it appends no user turn, and \<^verbatim>\<open>runPrompt\<close>
  returns after this round without an error.
\<close>

theorem round_appends_turns:
  assumes "modelProvider st = Some provider"
    and "provider prompt (withPrompt prompt messages) (modelTools st) (world st) = (Inr message, w)"
  shows "\<exists>rest res st1.
     filter (\<lambda>b. Type b = ''tool_use'') rest = map (toolUseOf L) (GetToolCalls message) \<and>
     (\<forall>b \<in> set rest. Type b \<noteq> ''text'') \<and>
     (GetToolCalls message = [] \<longrightarrow> rest = []) \<and>
     ((\<forall>out \<in> set (callOutcomes L (GetToolCalls message) (st\<lparr>world := w\<rparr>)).
          out \<noteq> CallFailed) \<longrightarrow> rest = map (toolUseOf L) (GetToolCalls message)) \<and>
     length res = producedCount (callOutcomes L (GetToolCalls message) (st\<lparr>world := w\<rparr>)) \<and>
     (\<forall>b \<in> set res. Type b = ''tool_result'') \<and>
     (if 0 < producedCount (callOutcomes L (GetToolCalls message) (st\<lparr>world := w\<rparr>)) then
        runRound L prompt messages st =
          Continue (withPrompt prompt messages @
                    [\<lparr>Role = GetRole message, Contents = freeText message @ rest\<rparr>,
                     \<lparr>Role = ''user'', Contents = res\<rparr>]) st1
      else
        runRound L prompt messages st =
          Done (withPrompt prompt messages @
                [\<lparr>Role = GetRole message, Contents = freeText message @ rest\<rparr>]) st1 \<and>
        runPrompt L prompt messages st =
          Some (None,
                withPrompt prompt messages @
                [\<lparr>Role = GetRole message, Contents = freeText message @ rest\<rparr>], st1))"
proof -
  from runRound_answered [OF assms, of L] obtain rest res st1 where
    r: "filter (\<lambda>b. Type b = ''tool_use'') rest = map (toolUseOf L) (GetToolCalls message)"
       "\<forall>b \<in> set rest. Type b \<noteq> ''text''"
       "GetToolCalls message = [] \<longrightarrow> rest = []"
       "(\<forall>out \<in> set (callOutcomes L (GetToolCalls message) (st\<lparr>world := w\<rparr>)).
          out \<noteq> CallFailed) \<longrightarrow> rest = map (toolUseOf L) (GetToolCalls message)"
       "length res = producedCount (callOutcomes L (GetToolCalls message) (st\<lparr>world := w\<rparr>))"
       "\<forall>b \<in> set res. Type b = ''tool_result''" and
    rr: "runRound L prompt messages st =
       (if res \<noteq> [] then
          Continue (withPrompt prompt messages @
                    [\<lparr>Role = GetRole message, Contents = freeText message @ rest\<rparr>,
                     \<lparr>Role = ''user'', Contents = res\<rparr>]) st1
        else
          Done (withPrompt prompt messages @
                [\<lparr>Role = GetRole message, Contents = freeText message @ rest\<rparr>])
            (st1\<lparr>modelMessages := modelMessages st1 @ withPrompt prompt messages @
                [\<lparr>Role = GetRole message, Contents = freeText message @ rest\<rparr>]\<rparr>))"
    by blast
  let ?j = "producedCount (callOutcomes L (GetToolCalls message) (st\<lparr>world := w\<rparr>))"
  show ?thesis
  proof (cases "0 < ?j")
    case True
    with r(5) have "res \<noteq> []" by auto
    with rr have "runRound L prompt messages st =
          Continue (withPrompt prompt messages @
                    [\<lparr>Role = GetRole message, Contents = freeText message @ rest\<rparr>,
                     \<lparr>Role = ''user'', Contents = res\<rparr>]) st1" by simp
    with r True show ?thesis
      by (intro exI [of _ rest] exI [of _ res] exI [of _ st1]) simp
  next
    case False
    let ?st2 = "st1\<lparr>modelMessages := modelMessages st1 @ withPrompt prompt messages @
                [\<lparr>Role = GetRole message, Contents = freeText message @ rest\<rparr>]\<rparr>"
    from False r(5) have "res = []" by auto
    with rr have d: "runRound L prompt messages st =
          Done (withPrompt prompt messages @
                [\<lparr>Role = GetRole message, Contents = freeText message @ rest\<rparr>]) ?st2"
      by simp
    from runPrompt_Done [OF d] d r False show ?thesis
      by (intro exI [of _ rest] exI [of _ res] exI [of _ ?st2]) simp
  qed
qed

theorem round_appends_turns_witness:
  "modelProvider (exState [exCall ''fs__list''] exDone) = Some (exProvider [exCall ''fs__list''] exDone) \<and>
   exProvider [exCall ''fs__list''] exDone ''go'' (withPrompt ''go'' []) (modelTools (exState [exCall ''fs__list''] exDone))
     (world (exState [exCall ''fs__list''] exDone)) = (Inr (exAnswer ''ok'' [exCall ''fs__list'']), [ModelCalled 1]) \<and>
   producedCount (callOutcomes exLib [exCall ''fs__list''] ((exState [exCall ''fs__list''] exDone)\<lparr>world := [ModelCalled 1]\<rparr>)) = 1 \<and>
   (\<exists>rest res st1.
     filter (\<lambda>b. Type b = ''tool_use'') rest = map (toolUseOf exLib) (GetToolCalls (exAnswer ''ok'' [exCall ''fs__list''])) \<and>
     (\<forall>b \<in> set rest. Type b \<noteq> ''text'') \<and>
     (GetToolCalls (exAnswer ''ok'' [exCall ''fs__list'']) = [] \<longrightarrow> rest = []) \<and>
     ((\<forall>out \<in> set (callOutcomes exLib (GetToolCalls (exAnswer ''ok'' [exCall ''fs__list''])) ((exState [exCall ''fs__list''] exDone)\<lparr>world := [ModelCalled 1]\<rparr>)).
          out \<noteq> CallFailed) \<longrightarrow> rest = map (toolUseOf exLib) (GetToolCalls (exAnswer ''ok'' [exCall ''fs__list'']))) \<and>
     length res = producedCount (callOutcomes exLib (GetToolCalls (exAnswer ''ok'' [exCall ''fs__list''])) ((exState [exCall ''fs__list''] exDone)\<lparr>world := [ModelCalled 1]\<rparr>)) \<and>
     (\<forall>b \<in> set res. Type b = ''tool_result'') \<and>
     (if 0 < producedCount (callOutcomes exLib (GetToolCalls (exAnswer ''ok'' [exCall ''fs__list''])) ((exState [exCall ''fs__list''] exDone)\<lparr>world := [ModelCalled 1]\<rparr>)) then
        runRound exLib ''go'' [] (exState [exCall ''fs__list''] exDone) =
          Continue (withPrompt ''go'' [] @
                    [\<lparr>Role = GetRole (exAnswer ''ok'' [exCall ''fs__list'']), Contents = freeText (exAnswer ''ok'' [exCall ''fs__list'']) @ rest\<rparr>,
                     \<lparr>Role = ''user'', Contents = res\<rparr>]) st1
      else
        runRound exLib ''go'' [] (exState [exCall ''fs__list''] exDone) =
          Done (withPrompt ''go'' [] @
                [\<lparr>Role = GetRole (exAnswer ''ok'' [exCall ''fs__list'']), Contents = freeText (exAnswer ''ok'' [exCall ''fs__list'']) @ rest\<rparr>]) st1 \<and>
        runPrompt exLib ''go'' [] (exState [exCall ''fs__list''] exDone) =
          Some (None,
                withPrompt ''go'' [] @
                [\<lparr>Role = GetRole (exAnswer ''ok'' [exCall ''fs__list'']), Contents = freeText (exAnswer ''ok'' [exCall ''fs__list'']) @ rest\<rparr>], st1)))"
proof -
  have h1: "modelProvider (exState [exCall ''fs__list''] exDone) = Some (exProvider [exCall ''fs__list''] exDone)"
    by (simp add: ex_defs)
  have h2: "exProvider [exCall ''fs__list''] exDone ''go'' (withPrompt ''go'' []) (modelTools (exState [exCall ''fs__list''] exDone))
     (world (exState [exCall ''fs__list''] exDone)) = (Inr (exAnswer ''ok'' [exCall ''fs__list'']), [ModelCalled 1])"
    by (simp add: ex_defs withPrompt_def)
  have h3: "producedCount (callOutcomes exLib [exCall ''fs__list''] ((exState [exCall ''fs__list''] exDone)\<lparr>world := [ModelCalled 1]\<rparr>)) = 1"
    by (simp add: producedCount_def callOutcome_def ex_defs Let_def Split.simps separator_def)
  show ?thesis by (intro conjI h1 h2 h3 round_appends_turns [OF h1 h2])
qed

text \<open>
  C9: a tool call that is invoked without an error and whose result has nil content adds
  its \<^verbatim>\<open>tool_use\<close> block to the content of the assistant turn and nothing to the tool
  results. A round all of whose calls are of this kind or skipped (name not well-formed,
  server unknown, arguments not parsed) appends the assistant turn only, with the free
  text and one \<^verbatim>\<open>tool_use\<close> block per call, and \<^verbatim>\<open>runPrompt\<close> returns after this round.
\<close>

theorem nil_content_adds_no_result:
  "(callOutcome L st tc = NoContentResult \<longrightarrow>
      (\<exists>w. toolCallStep L tc (mc, tr, st) = (mc @ [toolUseOf L tc], tr, st\<lparr>world := w\<rparr>))) \<and>
   (modelProvider st = Some provider \<and>
    provider prompt (withPrompt prompt messages) (modelTools st) (world st) = (Inr message, w0) \<and>
    (\<forall>out \<in> set (callOutcomes L (GetToolCalls message) (st\<lparr>world := w0\<rparr>)).
        out = NoContentResult \<or> out = Malformed \<or> out = UnknownServer \<or> out = BadArguments) \<longrightarrow>
      (\<exists>st1.
         runRound L prompt messages st =
           Done (withPrompt prompt messages @
                 [\<lparr>Role = GetRole message,
                    Contents = freeText message @ map (toolUseOf L) (GetToolCalls message)\<rparr>]) st1 \<and>
         runPrompt L prompt messages st =
           Some (None,
                 withPrompt prompt messages @
                 [\<lparr>Role = GetRole message,
                    Contents = freeText message @ map (toolUseOf L) (GetToolCalls message)\<rparr>],
                 st1)))"
proof (intro conjI impI)
  assume "callOutcome L st tc = NoContentResult"
  then show "\<exists>w. toolCallStep L tc (mc, tr, st) = (mc @ [toolUseOf L tc], tr, st\<lparr>world := w\<rparr>)"
    by (rule step_no_content)
next
  let ?outs = "callOutcomes L (GetToolCalls message) (st\<lparr>world := w0\<rparr>)"
  assume a: "modelProvider st = Some provider \<and>
    provider prompt (withPrompt prompt messages) (modelTools st) (world st) = (Inr message, w0) \<and>
    (\<forall>out \<in> set ?outs.
        out = NoContentResult \<or> out = Malformed \<or> out = UnknownServer \<or> out = BadArguments)"
  then have p: "modelProvider st = Some provider"
    and q: "provider prompt (withPrompt prompt messages) (modelTools st) (world st) =
              (Inr message, w0)"
    and o: "\<forall>out \<in> set ?outs.
        out = NoContentResult \<or> out = Malformed \<or> out = UnknownServer \<or> out = BadArguments"
    by blast+
  from o have nf: "\<forall>out \<in> set ?outs. out \<noteq> CallFailed" by auto
  from o have "\<forall>out \<in> set ?outs. out \<noteq> Produced" by auto
  then have z: "producedCount ?outs = 0" by (rule producedCount_none)
  from runRound_answered [OF p q, of L] nf z obtain res st1 where
    "res = []" and
    "runRound L prompt messages st =
       (if res \<noteq> [] then
          Continue (withPrompt prompt messages @
                    [\<lparr>Role = GetRole message,
                       Contents = freeText message @ map (toolUseOf L) (GetToolCalls message)\<rparr>,
                     \<lparr>Role = ''user'', Contents = res\<rparr>]) st1
        else
          Done (withPrompt prompt messages @
                [\<lparr>Role = GetRole message,
                   Contents = freeText message @ map (toolUseOf L) (GetToolCalls message)\<rparr>])
            (st1\<lparr>modelMessages := modelMessages st1 @ withPrompt prompt messages @
                [\<lparr>Role = GetRole message,
                   Contents = freeText message @ map (toolUseOf L) (GetToolCalls message)\<rparr>]\<rparr>))"
    by auto
  then have d: "runRound L prompt messages st =
          Done (withPrompt prompt messages @
                [\<lparr>Role = GetRole message,
                   Contents = freeText message @ map (toolUseOf L) (GetToolCalls message)\<rparr>])
            (st1\<lparr>modelMessages := modelMessages st1 @ withPrompt prompt messages @
                [\<lparr>Role = GetRole message,
                   Contents = freeText message @ map (toolUseOf L) (GetToolCalls message)\<rparr>]\<rparr>)"
    by simp
  from d runPrompt_Done [OF d] show "\<exists>st1.
         runRound L prompt messages st =
           Done (withPrompt prompt messages @
                 [\<lparr>Role = GetRole message,
                    Contents = freeText message @ map (toolUseOf L) (GetToolCalls message)\<rparr>]) st1 \<and>
         runPrompt L prompt messages st =
           Some (None,
                 withPrompt prompt messages @
                 [\<lparr>Role = GetRole message,
                    Contents = freeText message @ map (toolUseOf L) (GetToolCalls message)\<rparr>],
                 st1)"
    by blast
qed

theorem nil_content_adds_no_result_witness:
  "callOutcome exLib (exState [] exDone) (exCall ''fs__quiet'') = NoContentResult \<and>
   (\<exists>w. toolCallStep exLib (exCall ''fs__quiet'') ([], [], exState [] exDone) =
      ([] @ [toolUseOf exLib (exCall ''fs__quiet'')], [], (exState [] exDone)\<lparr>world := w\<rparr>)) \<and>
   callOutcomes exLib [exCall ''fs__quiet'', exCall ''plain'', exCall ''ghost__tool''] ((exState [exCall ''fs__quiet'', exCall ''plain'', exCall ''ghost__tool''] exDone)\<lparr>world := [ModelCalled 1]\<rparr>) =
     [NoContentResult, Malformed, UnknownServer] \<and>
   (\<exists>st1.
      runRound exLib ''go'' [] (exState [exCall ''fs__quiet'', exCall ''plain'', exCall ''ghost__tool''] exDone) =
        Done (withPrompt ''go'' [] @
              [\<lparr>Role = GetRole (exAnswer ''ok'' [exCall ''fs__quiet'', exCall ''plain'', exCall ''ghost__tool'']),
                 Contents = freeText (exAnswer ''ok'' [exCall ''fs__quiet'', exCall ''plain'', exCall ''ghost__tool'']) @
                   map (toolUseOf exLib) (GetToolCalls (exAnswer ''ok'' [exCall ''fs__quiet'', exCall ''plain'', exCall ''ghost__tool'']))\<rparr>]) st1 \<and>
      runPrompt exLib ''go'' [] (exState [exCall ''fs__quiet'', exCall ''plain'', exCall ''ghost__tool''] exDone) =
        Some (None,
              withPrompt ''go'' [] @
              [\<lparr>Role = GetRole (exAnswer ''ok'' [exCall ''fs__quiet'', exCall ''plain'', exCall ''ghost__tool'']),
                 Contents = freeText (exAnswer ''ok'' [exCall ''fs__quiet'', exCall ''plain'', exCall ''ghost__tool'']) @
                   map (toolUseOf exLib) (GetToolCalls (exAnswer ''ok'' [exCall ''fs__quiet'', exCall ''plain'', exCall ''ghost__tool'']))\<rparr>],
              st1))"
proof -
  note T1 = nil_content_adds_no_result [of exLib "exState [] exDone" "exCall ''fs__quiet''"
      "[]" "[]", THEN conjunct1]
  note T2 = nil_content_adds_no_result [of exLib "(exState [exCall ''fs__quiet'', exCall ''plain'', exCall ''ghost__tool''] exDone)" _ _ _ "exProvider [exCall ''fs__quiet'', exCall ''plain'', exCall ''ghost__tool''] exDone" "''go''"
      "[]" "exAnswer ''ok'' [exCall ''fs__quiet'', exCall ''plain'', exCall ''ghost__tool'']" "[ModelCalled 1]", THEN conjunct2]
  have h1: "callOutcome exLib (exState [] exDone) (exCall ''fs__quiet'') = NoContentResult"
    by (simp add: callOutcome_def ex_defs Let_def Split.simps separator_def)
  have o: "callOutcomes exLib [exCall ''fs__quiet'', exCall ''plain'', exCall ''ghost__tool''] ((exState [exCall ''fs__quiet'', exCall ''plain'', exCall ''ghost__tool''] exDone)\<lparr>world := [ModelCalled 1]\<rparr>) =
     [NoContentResult, Malformed, UnknownServer]"
    by (simp add: callOutcome_def toolCallStep.simps ex_defs Let_def Split.simps separator_def
          logWarn_def)
  have g: "GetToolCalls (exAnswer ''ok'' [exCall ''fs__quiet'', exCall ''plain'', exCall ''ghost__tool'']) = [exCall ''fs__quiet'', exCall ''plain'', exCall ''ghost__tool'']"
    by (simp add: exAnswer_def)
  have h2: "modelProvider (exState [exCall ''fs__quiet'', exCall ''plain'', exCall ''ghost__tool''] exDone) = Some (exProvider [exCall ''fs__quiet'', exCall ''plain'', exCall ''ghost__tool''] exDone) \<and>
    exProvider [exCall ''fs__quiet'', exCall ''plain'', exCall ''ghost__tool''] exDone ''go'' (withPrompt ''go'' []) (modelTools (exState [exCall ''fs__quiet'', exCall ''plain'', exCall ''ghost__tool''] exDone)) (world (exState [exCall ''fs__quiet'', exCall ''plain'', exCall ''ghost__tool''] exDone)) =
      (Inr (exAnswer ''ok'' [exCall ''fs__quiet'', exCall ''plain'', exCall ''ghost__tool'']), [ModelCalled 1]) \<and>
    (\<forall>out \<in> set (callOutcomes exLib (GetToolCalls (exAnswer ''ok'' [exCall ''fs__quiet'', exCall ''plain'', exCall ''ghost__tool'']))
                     ((exState [exCall ''fs__quiet'', exCall ''plain'', exCall ''ghost__tool''] exDone)\<lparr>world := [ModelCalled 1]\<rparr>)).
        out = NoContentResult \<or> out = Malformed \<or> out = UnknownServer \<or> out = BadArguments)"
    unfolding g o by (simp add: ex_defs withPrompt_def)
  show ?thesis by (intro conjI h1 o T1 [THEN mp, OF h1] T2 [THEN mp, OF h2])
qed

subsection \<open>A failing backend\<close>

text \<open>
  C10: if the backend call fails in round \<open>k + 1\<close> of a run, after \<open>k \<ge> 0\<close> rounds that
  each produced tool results, then \<^verbatim>\<open>runPrompt\<close> returns that error, and the global
  history \<^verbatim>\<open>modelMessages\<close> is what it was before the run: none of the turns of the
  session, which \<^verbatim>\<open>*messages\<close> holds, went into it.
\<close>

theorem backend_failure_leaves_history:
  assumes "afterRounds L k prompt messages st = Some (prompt1, messages1, st1)"
    and "modelProvider st1 = Some provider"
    and "provider prompt1 (withPrompt prompt1 messages1) (modelTools st1) (world st1) = (Inl err, w)"
  shows "runPrompt L prompt messages st =
           Some (Some err, withPrompt prompt1 messages1, st1\<lparr>world := w\<rparr>) \<and>
         modelMessages (st1\<lparr>world := w\<rparr>) = modelMessages st"
  using afterRounds_runPrompt [OF assms(1)]
    runPrompt_Failed [OF runRound_provider_fails [OF assms(2) assms(3)], of L]
  by simp

theorem backend_failure_leaves_history_witness:
  "afterRounds exLib (Suc 0) ''go'' [] (exState [exCall ''fs__list''] (Inl ''backend down'')) = Some ([], [exTurn ''go'',
      \<lparr>Role = ''assistant'',
         Contents = [textBlock ''ok'', toolUseBlock ''id1'' ''fs__list'' ''{}'']\<rparr>,
      \<lparr>Role = ''user'',
         Contents = [ContentBlock ''tool_result'' ''ok'' [] ''id1'' [] []
                       (RawContent [MapItem [(''text'', ''ok'')]])]\<rparr>], ((exState [exCall ''fs__list''] (Inl ''backend down''))\<lparr>world := [ModelCalled 1, ToolCalled 1 ''list'' ''{}'']\<rparr>)) \<and>
   runPrompt exLib ''go'' [] (exState [exCall ''fs__list''] (Inl ''backend down'')) =
     Some (Some ''backend down'', withPrompt [] [exTurn ''go'',
      \<lparr>Role = ''assistant'',
         Contents = [textBlock ''ok'', toolUseBlock ''id1'' ''fs__list'' ''{}'']\<rparr>,
      \<lparr>Role = ''user'',
         Contents = [ContentBlock ''tool_result'' ''ok'' [] ''id1'' [] []
                       (RawContent [MapItem [(''text'', ''ok'')]])]\<rparr>],
           ((exState [exCall ''fs__list''] (Inl ''backend down''))\<lparr>world := [ModelCalled 1, ToolCalled 1 ''list'' ''{}'']\<rparr>)\<lparr>world := [ModelCalled 1, ToolCalled 1 ''list'' ''{}'', ModelCalled 3]\<rparr>) \<and>
   modelMessages
     (((exState [exCall ''fs__list''] (Inl ''backend down''))\<lparr>world := [ModelCalled 1, ToolCalled 1 ''list'' ''{}'']\<rparr>)\<lparr>world := [ModelCalled 1, ToolCalled 1 ''list'' ''{}'', ModelCalled 3]\<rparr>) =
   modelMessages (exState [exCall ''fs__list''] (Inl ''backend down''))"
proof -
  have h1: "afterRounds exLib (Suc 0) ''go'' [] (exState [exCall ''fs__list''] (Inl ''backend down'')) = Some ([], [exTurn ''go'',
      \<lparr>Role = ''assistant'',
         Contents = [textBlock ''ok'', toolUseBlock ''id1'' ''fs__list'' ''{}'']\<rparr>,
      \<lparr>Role = ''user'',
         Contents = [ContentBlock ''tool_result'' ''ok'' [] ''id1'' [] []
                       (RawContent [MapItem [(''text'', ''ok'')]])]\<rparr>], ((exState [exCall ''fs__list''] (Inl ''backend down''))\<lparr>world := [ModelCalled 1, ToolCalled 1 ''list'' ''{}'']\<rparr>))"
    by (simp add: runRound_def withPrompt_def toolCallStep.simps resultText_def ex_defs Let_def
          Split.simps separator_def)
  have h2: "modelProvider ((exState [exCall ''fs__list''] (Inl ''backend down''))\<lparr>world := [ModelCalled 1, ToolCalled 1 ''list'' ''{}'']\<rparr>) = Some (exProvider [exCall ''fs__list''] (Inl ''backend down''))"
    by (simp add: ex_defs)
  have h3: "exProvider [exCall ''fs__list''] (Inl ''backend down'') [] (withPrompt [] [exTurn ''go'',
      \<lparr>Role = ''assistant'',
         Contents = [textBlock ''ok'', toolUseBlock ''id1'' ''fs__list'' ''{}'']\<rparr>,
      \<lparr>Role = ''user'',
         Contents = [ContentBlock ''tool_result'' ''ok'' [] ''id1'' [] []
                       (RawContent [MapItem [(''text'', ''ok'')]])]\<rparr>]) (modelTools ((exState [exCall ''fs__list''] (Inl ''backend down''))\<lparr>world := [ModelCalled 1, ToolCalled 1 ''list'' ''{}'']\<rparr>))
      (world ((exState [exCall ''fs__list''] (Inl ''backend down''))\<lparr>world := [ModelCalled 1, ToolCalled 1 ''list'' ''{}'']\<rparr>)) =
      (Inl ''backend down'', [ModelCalled 1, ToolCalled 1 ''list'' ''{}'', ModelCalled 3])"
    by (simp add: ex_defs withPrompt_def)
  from h1 h2 h3 have T: "runPrompt exLib ''go'' [] (exState [exCall ''fs__list''] (Inl ''backend down'')) =
     Some (Some ''backend down'', withPrompt [] [exTurn ''go'',
      \<lparr>Role = ''assistant'',
         Contents = [textBlock ''ok'', toolUseBlock ''id1'' ''fs__list'' ''{}'']\<rparr>,
      \<lparr>Role = ''user'',
         Contents = [ContentBlock ''tool_result'' ''ok'' [] ''id1'' [] []
                       (RawContent [MapItem [(''text'', ''ok'')]])]\<rparr>],
           ((exState [exCall ''fs__list''] (Inl ''backend down''))\<lparr>world := [ModelCalled 1, ToolCalled 1 ''list'' ''{}'']\<rparr>)\<lparr>world := [ModelCalled 1, ToolCalled 1 ''list'' ''{}'', ModelCalled 3]\<rparr>) \<and>
   modelMessages
     (((exState [exCall ''fs__list''] (Inl ''backend down''))\<lparr>world := [ModelCalled 1, ToolCalled 1 ''list'' ''{}'']\<rparr>)\<lparr>world := [ModelCalled 1, ToolCalled 1 ''list'' ''{}'', ModelCalled 3]\<rparr>) =
   modelMessages (exState [exCall ''fs__list''] (Inl ''backend down''))"
    by (rule backend_failure_leaves_history)
  from h1 T show ?thesis by (rule conjI)
qed

subsection \<open>A failing tool\<close>

text \<open>
  C4, on the code: the one tool call of the round fails. The error block goes into the
  content of the assistant turn, not into the tool results; no user turn follows, the
  backend is not asked again (the outside world shows one query), and \<^verbatim>\<open>runPrompt\<close>
  returns.
\<close>

theorem tool_error_stays_in_assistant_turn:
  "runPrompt exLib ''go'' [] (exState [exCall ''fs__fail''] exDone) =
     Some (None,
       [exTurn ''go'',
        \<lparr>Role = ''assistant'',
           Contents =
             [textBlock ''ok'', toolUseBlock ''id1'' ''fs__fail'' ''{}'',
              ContentBlock ''tool_result'' [] [] ''id1'' [] []
                (Blocks [textBlock ''Error calling tool fail: boom''])]\<rparr>],
       (exState [exCall ''fs__fail''] exDone)
         \<lparr>world := [ModelCalled 1, ToolCalled 1 ''fail'' ''{}''],
           logs := [(WarnLevel, ''Error calling tool'',
                     [(''error'', ''Error calling tool fail: boom'')])],
           modelMessages :=
             [exTurn ''go'',
              \<lparr>Role = ''assistant'',
                 Contents =
                   [textBlock ''ok'', toolUseBlock ''id1'' ''fs__fail'' ''{}'',
                    ContentBlock ''tool_result'' [] [] ''id1'' [] []
                      (Blocks [textBlock ''Error calling tool fail: boom''])]\<rparr>]\<rparr>)"
  by (subst runPrompt.simps)
     (simp add: runRound_def withPrompt_def toolCallStep.simps ex_defs Let_def Split.simps
        separator_def logWarn_def)

subsection \<open>The window size from the environment\<close>

text \<open>
  C8, on the code: the variable starts at 10, and \<^verbatim>\<open>LoadServerEnv\<close> overwrites it with
  what \<^verbatim>\<open>strconv.Atoi\<close> returns, whose error it drops: 0 when the setting is absent and
  0 when it is not a number. With the window at 0 the history endpoint returns no turn
  of a history of two.
\<close>

theorem window_without_setting_is_zero:
  "messageWindow (exState [] exDone) = 10 \<and>
   messageWindow (LoadServerEnv (Inr []) Map.empty (exState [] exDone)) = 0 \<and>
   messageWindow
     (LoadServerEnv (Inr []) [''MCP_MESSAGE_WINDOW'' \<mapsto> ''ten''] (exState [] exDone)) = 0 \<and>
   historyHandler
     ((LoadServerEnv (Inr []) Map.empty (exState [] exDone))
        \<lparr>modelMessages := [exTurn ''one'', exTurn ''two'']\<rparr>) = Inr []"
  by (simp add: LoadServerEnv_def godotenvLoad_def Getenv_def Atoi_def isDigit_def
        historyHandler_def wrap64_def ex_defs Let_def)

subsection \<open>Registration\<close>











end
